theory Spec2Isabelle
  imports Complex_Main "HOL-Library.AList"
begin

section \<open>The milk shop point of sale: data model\<close>

text \<open>
  The program is \<^verbatim>\<open>pos_milk_store.py\<close>: three ORM classes (\<^verbatim>\<open>Product\<close>, \<^verbatim>\<open>Order\<close>,
  \<^verbatim>\<open>OrderItem\<close>), one process-wide database session, and the window class \<^verbatim>\<open>POSApp\<close>
  holding the cart. Each table is the list of its rows in insertion order. The \<^verbatim>\<open>Float\<close>
  columns and the quantities are modelled as exact real numbers: rounding of binary
  floating point, infinities and NaN are outside the model. The primary key columns
  \<^verbatim>\<open>id\<close> are named \<open>p_id\<close>, \<open>o_id\<close>, \<open>i_id\<close>, and \<^verbatim>\<open>Order.total\<close> is \<open>o_total\<close>.
\<close>

record product =
  p_id :: nat
  name :: string
  price_per_unit :: real
  stock :: real

record datetime =
  year :: nat
  month :: nat
  day :: nat
  hour :: nat
  minute :: nat
  second :: nat

record order =
  o_id :: nat
  timestamp :: datetime
  o_total :: real

record order_item =
  i_id :: nat
  order_id :: nat
  product_id :: nat
  quantity :: real
  line_total :: real

record tables =
  products :: "product list"
  orders :: "order list"
  order_items :: "order_item list"

text \<open>
  The application reads and writes through one session that is never rolled back.
  \<open>working\<close> is what the session sees: the database together with the objects that were
  changed or added since the last commit. \<open>committed\<close> is what the database file holds.
  \<^verbatim>\<open>session.commit()\<close> copies the first onto the second. \<open>cart\<close> is the dictionary
  \<^verbatim>\<open>self.cart\<close> from product id to quantity, in insertion order.
\<close>

record app =
  committed :: tables
  working :: tables
  cart :: "(nat \<times> real) list"

text \<open>
  What the operator is shown when an operation stops early: the three message boxes of
  the source, and the \<^verbatim>\<open>AttributeError\<close> Python raises when an attribute of \<^verbatim>\<open>None\<close> is
  read (\<^verbatim>\<open>session.get\<close> returns \<^verbatim>\<open>None\<close> for an id that has no row).
\<close>

datatype error =
  InvalidInput
  | NoProductSelected
  | NoItemsSelected
  | NotEnoughStock string
  | AttributeError

section \<open>The session\<close>

text \<open>\<^verbatim>\<open>session.get(Product, pid)\<close>: the row with that primary key, if any.\<close>

definition get_product :: "tables \<Rightarrow> nat \<Rightarrow> product option" where
  "get_product w pid = find (\<lambda>p. p_id p = pid) (products w)"

text \<open>
  Assigning to an attribute of a loaded object changes that one object: the first row
  that satisfies the predicate by which it was found.
\<close>

fun update_first :: "('a \<Rightarrow> bool) \<Rightarrow> ('a \<Rightarrow> 'a) \<Rightarrow> 'a list \<Rightarrow> 'a list" where
  "update_first P f [] = []"
| "update_first P f (x # xs) = (if P x then f x # xs else x # update_first P f xs)"

text \<open>
  An integer primary key without \<^verbatim>\<open>AUTOINCREMENT\<close>: SQLite gives a new row the largest
  key in the table plus one, and 1 in an empty table.
\<close>

definition next_id :: "nat list \<Rightarrow> nat" where
  "next_id ks = Suc (fold max ks 0)"

definition commit :: "app \<Rightarrow> app" where
  "commit a = a\<lparr>committed := working a\<rparr>"

text \<open>\<^verbatim>\<open>session.add(item)\<close> for a new order item; its key is the next one of the table.\<close>

definition add_item :: "nat \<Rightarrow> nat \<Rightarrow> real \<Rightarrow> real \<Rightarrow> tables \<Rightarrow> tables" where
  "add_item oid pid qty line w =
     w\<lparr>order_items := order_items w @
        [\<lparr>i_id = next_id (map i_id (order_items w)), order_id = oid, product_id = pid,
          quantity = qty, line_total = line\<rparr>]\<rparr>"

text \<open>The relationship \<^verbatim>\<open>Order.items\<close>: the items whose \<^verbatim>\<open>order_id\<close> is the order's key.\<close>

definition items :: "tables \<Rightarrow> order \<Rightarrow> order_item list" where
  "items w ord = filter (\<lambda>i. order_id i = o_id ord) (order_items w)"

section \<open>Seed data\<close>

definition def_products :: "(string \<times> real) list" where
  "def_products =
     [(''Milk (per kg)'', 150),
      (''Yogurt (per kg)'', 200),
      (''Sweets (per dish)'', 100),
      (''Dhai Bhale'', 120),
      (''Cream Chaat'', 130),
      (''Rice Pudding'', 90),
      (''Desi Ghee (250g)'', 250)]"

fun seed_rows :: "product list \<Rightarrow> (string \<times> real) list \<Rightarrow> product list" where
  "seed_rows ps [] = ps"
| "seed_rows ps ((n, price) # rest) =
     seed_rows (ps @ [\<lparr>p_id = next_id (map p_id ps), name = n, price_per_unit = price,
                       stock = 100\<rparr>]) rest"

text \<open>The products are seeded only into an empty table, and committed.\<close>

definition seed :: "app \<Rightarrow> app" where
  "seed a =
     (if length (products (working a)) = 0
      then commit (a\<lparr>working := (working a)\<lparr>products := seed_rows (products (working a)) def_products\<rparr>\<rparr>)
      else a)"

definition empty_tables :: tables where
  "empty_tables = \<lparr>products = [], orders = [], order_items = []\<rparr>"

text \<open>The application on its first run: a new database, seeded, and an empty cart.\<close>

definition first_run :: app where
  "first_run = seed \<lparr>committed = empty_tables, working = empty_tables, cart = []\<rparr>"

section \<open>Receipt\<close>

text \<open>
  Python's format specifications, as far as \<^verbatim>\<open>save_receipt\<close> uses them. Text is a list of
  bytes; the multiplication sign of the receipt line is its two bytes in UTF-8.
\<close>

fun digits :: "nat \<Rightarrow> string" where
  "digits n = (if n < 10 then [''0123456789'' ! n] else digits (n div 10) @ [''0123456789'' ! (n mod 10)])"

declare digits.simps [simp del]

definition zero_pad :: "nat \<Rightarrow> nat \<Rightarrow> string" where
  "zero_pad w n = replicate (w - length (digits n)) (CHR ''0'') @ digits n"

definition rjust :: "nat \<Rightarrow> string \<Rightarrow> string" where
  "rjust w s = replicate (w - length s) (CHR '' '') @ s"

definition ljust :: "nat \<Rightarrow> string \<Rightarrow> string" where
  "ljust w s = s @ replicate (w - length s) (CHR '' '')"

text \<open>Rounding to the nearest integer, a tie going to the even one.\<close>

definition round_half_even :: "real \<Rightarrow> int" where
  "round_half_even y =
     (let f = \<lfloor>y\<rfloor>; d = y - of_int f
      in if d < 1 / 2 then f else if 1 / 2 < d then f + 1 else if even f then f else f + 1)"

text \<open>\<^verbatim>\<open>.2f\<close>: two decimals after the point, a minus sign for a negative number.\<close>

definition format_2f :: "real \<Rightarrow> string" where
  "format_2f x =
     (let r = nat (round_half_even (\<bar>x\<bar> * 100))
      in (if x < 0 then ''-'' else '''') @ digits (r div 100) @ ''.'' @ zero_pad 2 (r mod 100))"

text \<open>\<^verbatim>\<open>%Y-%m-%d %H:%M:%S\<close>\<close>

definition format_timestamp :: "datetime \<Rightarrow> string" where
  "format_timestamp t =
     zero_pad 4 (year t) @ ''-'' @ zero_pad 2 (month t) @ ''-'' @ zero_pad 2 (day t) @ '' '' @
     zero_pad 2 (hour t) @ '':'' @ zero_pad 2 (minute t) @ '':'' @ zero_pad 2 (second t)"

definition times_sign :: string where
  "times_sign = [CHR 0xC3, CHR 0x97]"

fun join :: "string \<Rightarrow> string list \<Rightarrow> string" where
  "join sep [] = []"
| "join sep [l] = l"
| "join sep (l # ls) = l @ sep @ join sep ls"

text \<open>
  One receipt line per item. The name and the unit price are read through the item's
  product, the quantity and the line total from the item.
\<close>

definition item_line :: "tables \<Rightarrow> order_item \<Rightarrow> error + string" where
  "item_line w item =
     (case get_product w (product_id item) of
        None \<Rightarrow> Inl AttributeError
      | Some p \<Rightarrow>
          Inr (ljust 15 (name p) @ '' '' @ rjust 5 (format_2f (quantity item)) @ '' '' @
               times_sign @ '' '' @ rjust 6 (format_2f (price_per_unit p)) @ '' = '' @
               rjust 7 (format_2f (line_total item))))"

fun item_lines :: "tables \<Rightarrow> order_item list \<Rightarrow> error + string list" where
  "item_lines w [] = Inr []"
| "item_lines w (item # rest) =
     (case item_line w item of
        Inl e \<Rightarrow> Inl e
      | Inr l \<Rightarrow> (case item_lines w rest of Inl e \<Rightarrow> Inl e | Inr ls \<Rightarrow> Inr (l # ls)))"

text \<open>
  \<^verbatim>\<open>save_receipt(order)\<close>: the text that is written to \<^verbatim>\<open>receipt_<id>.txt\<close> and shown in the
  message box. The file and the box are not modelled.
\<close>

definition save_receipt :: "tables \<Rightarrow> order \<Rightarrow> error + string" where
  "save_receipt w ord =
     (case item_lines w (items w ord) of
        Inl e \<Rightarrow> Inl e
      | Inr ls \<Rightarrow>
          Inr (join [CHR 0x0A]
            ([''*** MILK SHOP RECEIPT ***'',
              ''Order #'' @ digits (o_id ord) @ ''   '' @ format_timestamp (timestamp ord),
              replicate 40 (CHR ''-'')] @ ls @
             [replicate 40 (CHR ''-''), ''TOTAL: '' @ format_2f (o_total ord), ''Thank you!''])))"

section \<open>Catalog maintenance\<close>

text \<open>
  \<^verbatim>\<open>_add_product\<close>. The three dialogs are inputs: the name as the dialog returns it
  (\<open>None\<close> when it is cancelled), and for price and stock the result of
  \<^verbatim>\<open>float(askstring(...))\<close>: \<open>None\<close> when the conversion raises (text that is not a number, or
  a cancelled dialog), the number otherwise. \<^verbatim>\<open>float\<close> accepts a sign, so the number may
  be negative. The result is the error shown, if any, and the application afterwards.
\<close>

definition add_product :: "string option \<Rightarrow> real option \<Rightarrow> real option \<Rightarrow> app \<Rightarrow> error option \<times> app" where
  "add_product nm price_in stock_in a =
     (case nm of
        None \<Rightarrow> (None, a)
      | Some n \<Rightarrow>
          if n = [] then (None, a)
          else (case price_in of
                  None \<Rightarrow> (Some InvalidInput, a)
                | Some price \<Rightarrow>
                    (case stock_in of
                       None \<Rightarrow> (Some InvalidInput, a)
                     | Some stk \<Rightarrow>
                         (let w = working a;
                              w' = (case find (\<lambda>p. name p = n) (products w) of
                                      Some existing \<Rightarrow>
                                        w\<lparr>products := update_first (\<lambda>p. name p = n)
                                             (\<lambda>p. p\<lparr>price_per_unit := price, stock := stk\<rparr>) (products w)\<rparr>
                                    | None \<Rightarrow>
                                        w\<lparr>products := products w @
                                             [\<lparr>p_id = next_id (map p_id (products w)), name = n,
                                               price_per_unit = price, stock = stk\<rparr>]\<rparr>)
                          in (None, commit (a\<lparr>working := w'\<rparr>))))))"

text \<open>
  \<^verbatim>\<open>_delete_product\<close>. The inputs are the key of the selected row of the product list
  (\<open>None\<close> when no row is selected) and the answer to the confirmation box.
\<close>

definition delete_product :: "nat option \<Rightarrow> bool \<Rightarrow> app \<Rightarrow> error option \<times> app" where
  "delete_product selected confirm a =
     (case selected of
        None \<Rightarrow> (Some NoProductSelected, a)
      | Some pid \<Rightarrow>
          (case get_product (working a) pid of
             None \<Rightarrow> (Some AttributeError, a)
           | Some existing \<Rightarrow>
               if confirm
               then (let w = working a;
                         w' = w\<lparr>products := filter (\<lambda>p. p_id p \<noteq> pid) (products w)\<rparr>
                     in (None, commit (a\<lparr>working := w'\<rparr>)))
               else (None, a)))"

section \<open>Cart\<close>

text \<open>\<^verbatim>\<open>self.cart.get(pid, 0)\<close>\<close>

definition cart_get :: "(nat \<times> real) list \<Rightarrow> nat \<Rightarrow> real" where
  "cart_get c pid = (case map_of c pid of None \<Rightarrow> 0 | Some q \<Rightarrow> q)"

text \<open>
  \<^verbatim>\<open>update_cart_display\<close> redraws the list box and the total label; the value here is the
  total it displays. It raises when a cart entry's product has no row any more.
\<close>

fun cart_lines :: "tables \<Rightarrow> (nat \<times> real) list \<Rightarrow> real \<Rightarrow> error + real" where
  "cart_lines w [] tot = Inr tot"
| "cart_lines w ((pid, qty) # rest) tot =
     (case get_product w pid of
        None \<Rightarrow> Inl AttributeError
      | Some p \<Rightarrow> cart_lines w rest (tot + price_per_unit p * qty))"

definition update_cart_display :: "app \<Rightarrow> error + real" where
  "update_cart_display a = cart_lines (working a) (cart a) 0"

text \<open>
  \<^verbatim>\<open>add_to_cart(product, qty)\<close>, with the product given by its key. The dictionary is
  assigned before the display is refreshed, so the cart changes whether or not the
  refresh raises.
\<close>

definition add_to_cart :: "nat \<Rightarrow> real \<Rightarrow> app \<Rightarrow> (error + real) \<times> app" where
  "add_to_cart pid qty a =
     (let a' = a\<lparr>cart := AList.update pid (cart_get (cart a) pid + qty) (cart a)\<rparr>
      in (update_cart_display a', a'))"

section \<open>Checkout\<close>

text \<open>
  The loop of \<^verbatim>\<open>_checkout\<close> over the cart entries. For each entry the product is loaded,
  its stock compared with the quantity, and then its stock is lowered and the order item
  added, before the next entry is looked at. The loop stops at the first product that is
  missing or short of stock, with what it has done so far left in the session.
\<close>

fun checkout_loop :: "nat \<Rightarrow> tables \<Rightarrow> real \<Rightarrow> (nat \<times> real) list \<Rightarrow> (error + real) \<times> tables" where
  "checkout_loop oid w tot [] = (Inr tot, w)"
| "checkout_loop oid w tot ((pid, qty) # rest) =
     (case get_product w pid of
        None \<Rightarrow> (Inl AttributeError, w)
      | Some p \<Rightarrow>
          if stock p < qty then (Inl (NotEnoughStock (name p)), w)
          else (let line = price_per_unit p * qty;
                    w1 = w\<lparr>products := update_first (\<lambda>r. p_id r = pid)
                                          (\<lambda>r. r\<lparr>stock := stock r - qty\<rparr>) (products w)\<rparr>;
                    w2 = add_item oid pid qty line w1
                in checkout_loop oid w2 (tot + line) rest))"

text \<open>
  \<^verbatim>\<open>order = Order(); self.session.add(order)\<close>: the new row takes the next key of the
  table, the time of the insert, and the column default 0.0 as its total.
\<close>

definition add_order :: "datetime \<Rightarrow> tables \<Rightarrow> tables" where
  "add_order now w =
     w\<lparr>orders := orders w @
        [\<lparr>o_id = next_id (map o_id (orders w)), timestamp = now, o_total = 0\<rparr>]\<rparr>"

text \<open>\<^verbatim>\<open>order.total = total\<close>\<close>

definition set_order_total :: "nat \<Rightarrow> real \<Rightarrow> tables \<Rightarrow> tables" where
  "set_order_total oid tot w =
     w\<lparr>orders := update_first (\<lambda>r. o_id r = oid) (\<lambda>r. r\<lparr>o_total := tot\<rparr>) (orders w)\<rparr>"

text \<open>
  \<^verbatim>\<open>_checkout\<close>, at the time \<open>now\<close>. An empty cart returns at once. Otherwise the new
  order is added and committed, then the loop runs. When the loop stops early the
  function returns, with no commit and no rollback. When it completes, the order's total
  is set, the session is committed, the receipt is produced and the cart cleared. The
  result is the error or the receipt text.
\<close>

definition checkout :: "datetime \<Rightarrow> app \<Rightarrow> (error + string) \<times> app" where
  "checkout now a =
     (if cart a = [] then (Inl NoItemsSelected, a)
      else (let oid = next_id (map o_id (orders (working a)));
                a1 = commit (a\<lparr>working := add_order now (working a)\<rparr>)
            in (case checkout_loop oid (working a1) 0 (cart a1) of
                  (Inl e, w2) \<Rightarrow> (Inl e, a1\<lparr>working := w2\<rparr>)
                | (Inr tot, w2) \<Rightarrow>
                    (let a3 = commit (a1\<lparr>working := set_order_total oid tot w2\<rparr>)
                     in (case save_receipt (working a3)
                                \<lparr>o_id = oid, timestamp = now, o_total = tot\<rparr> of
                           Inl e \<Rightarrow> (Inl e, a3)
                         | Inr txt \<Rightarrow> (Inr txt, a3\<lparr>cart := []\<rparr>))))))"

section \<open>The operator's actions\<close>

text \<open>
  \<^verbatim>\<open>mainloop\<close> runs one callback after another, each with the inputs the operator gives
  it. These are the callbacks that write to the database or fill the cart.
\<close>

datatype action =
  AddProduct "string option" "real option" "real option"
  | DeleteProduct "nat option" bool
  | AddToCart nat real
  | Checkout datetime

fun step :: "action \<Rightarrow> app \<Rightarrow> app" where
  "step (AddProduct nm price_in stock_in) a = snd (add_product nm price_in stock_in a)"
| "step (DeleteProduct selected confirm) a = snd (delete_product selected confirm a)"
| "step (AddToCart pid qty) a = snd (add_to_cart pid qty a)"
| "step (Checkout now) a = snd (checkout now a)"

definition run :: "action list \<Rightarrow> app \<Rightarrow> app" where
  "run acts a = fold step acts a"

section \<open>Properties of states\<close>

text \<open>No product row has a negative stock.\<close>

definition stock_ok :: "tables \<Rightarrow> bool" where
  "stock_ok w = list_all (\<lambda>p. 0 \<le> stock p) (products w)"

text \<open>An action that does not enter a negative stock in the stock dialog.\<close>

fun enters_stock_ok :: "action \<Rightarrow> bool" where
  "enters_stock_ok (AddProduct nm price_in (Some stk)) = (0 \<le> stk)"
| "enters_stock_ok act = True"

text \<open>
  The primary key of the product table and the keys of the cart dictionary are unique.
\<close>

definition keys_ok :: "app \<Rightarrow> bool" where
  "keys_ok a = (distinct (map p_id (products (working a))) \<and> distinct (map fst (cart a)))"

text \<open>
  What a checkout added to the database: the last order row, and the item rows beyond
  those the session held before.
\<close>

definition placed_order :: "app \<Rightarrow> order" where
  "placed_order a' = last (orders (committed a'))"

definition placed_items :: "app \<Rightarrow> app \<Rightarrow> order_item list" where
  "placed_items a a' = drop (length (order_items (working a))) (order_items (committed a'))"

text \<open>The name and unit price a receipt line reads through an item's product.\<close>

definition printed_of :: "tables \<Rightarrow> nat \<Rightarrow> (string \<times> real) option" where
  "printed_of w pid = map_option (\<lambda>p. (name p, price_per_unit p)) (get_product w pid)"

section \<open>Example inputs\<close>

definition sale_time :: datetime where
  "sale_time = \<lparr>year = 2025, month = 3, day = 7, hour = 9, minute = 5, second = 0\<rparr>"

text \<open>One kilogram of milk, added as two half kilograms.\<close>

definition milk_sale :: app where
  "milk_sale = snd (add_to_cart 1 (1 / 2) (snd (add_to_cart 1 (1 / 2) first_run)))"

text \<open>One kilogram of milk and more yogurt than is in stock.\<close>

definition short_sale :: app where
  "short_sale = snd (add_to_cart 2 200 (snd (add_to_cart 1 1 first_run)))"

text \<open>One kilogram of milk and a product whose row has been deleted in between.\<close>

definition deleted_sale :: app where
  "deleted_sale =
     snd (delete_product (Some 2) True (snd (add_to_cart 2 1 (snd (add_to_cart 1 1 first_run)))))"

text \<open>
  The state after the milk sale is checked out, and two later states of the catalog: the
  milk restocked at the same price, and the milk at a new price.
\<close>

definition milk_sold :: app where
  "milk_sold = snd (checkout sale_time milk_sale)"

definition milk_restocked :: app where
  "milk_restocked = snd (add_product (Some ''Milk (per kg)'') (Some 150) (Some 40) milk_sold)"

definition milk_repriced :: app where
  "milk_repriced = snd (add_product (Some ''Milk (per kg)'') (Some 160) (Some 99) milk_sold)"

section \<open>Lemmas about the session\<close>

lemma length_update_first: "length (update_first P f xs) = length xs"
  by (induction xs) auto

lemma map_update_first:
  "(\<And>x. g (f x) = g x) \<Longrightarrow> map g (update_first P f xs) = map g xs"
  by (induction xs) auto

lemma update_first_absent:
  "\<forall>x\<in>set xs. \<not> P x \<Longrightarrow> update_first P f xs = xs"
  by (induction xs) auto



lemma set_update_first:
  "y \<in> set (update_first P f xs) \<Longrightarrow> y \<in> set xs \<or> (find P xs \<noteq> None \<and> y = f (the (find P xs)))"
  by (induction xs) (auto split: if_splits)

lemma fold_max_ge: "(m::nat) \<le> fold max ks m"
proof (induction ks arbitrary: m)
  case Nil
  then show ?case by simp
next
  case (Cons k ks)
  have "m \<le> max k m" by simp
  also have "max k m \<le> fold max ks (max k m)" by (rule Cons.IH)
  finally show ?case by simp
qed

lemma fold_max_mem: "x \<in> set ks \<Longrightarrow> (x::nat) \<le> fold max ks m"
proof (induction ks arbitrary: m)
  case Nil
  then show ?case by simp
next
  case (Cons k ks)
  show ?case
  proof (cases "x = k")
    case True
    have "max k m \<le> fold max ks (max k m)" by (rule fold_max_ge)
    with True show ?thesis by simp
  next
    case False
    with Cons show ?thesis by simp
  qed
qed

lemma next_id_fresh: "x \<in> set ks \<Longrightarrow> x < next_id ks"
  by (simp add: next_id_def fold_max_mem less_Suc_eq_le)

section \<open>Lemmas about the checkout loop\<close>

lemma list_all_update_first:
  "list_all Q xs \<Longrightarrow> (\<And>x. find P xs = Some x \<Longrightarrow> Q (f x)) \<Longrightarrow> list_all Q (update_first P f xs)"
  by (induction xs) auto



lemma find_Some_mem: "find P xs = Some x \<Longrightarrow> x \<in> set xs \<and> P x"
  by (induction xs) (auto split: if_splits)

lemma checkout_loop_stock:
  "list_all (\<lambda>p. 0 \<le> stock p) (products w) \<Longrightarrow> checkout_loop oid w tot c = (r, w') \<Longrightarrow>
   list_all (\<lambda>p. 0 \<le> stock p) (products w')"
proof (induction c arbitrary: w tot)
  case Nil
  then show ?case by simp
next
  case (Cons e c)
  obtain pid qty where e: "e = (pid, qty)" by (cases e)
  show ?case
  proof (cases "get_product w pid")
    case None
    with Cons.prems e show ?thesis by simp
  next
    case (Some p)
    show ?thesis
    proof (cases "stock p < qty")
      case True
      with Cons.prems e Some show ?thesis by simp
    next
      case False
      let ?w1 = "w\<lparr>products := update_first (\<lambda>r. p_id r = pid) (\<lambda>r. r\<lparr>stock := stock r - qty\<rparr>) (products w)\<rparr>"
      let ?w2 = "add_item oid pid qty (price_per_unit p * qty) ?w1"
      from Some have found: "find (\<lambda>r. p_id r = pid) (products w) = Some p"
        by (simp add: get_product_def)
      have "list_all (\<lambda>p. 0 \<le> stock p) (products ?w1)"
        using Cons.prems(1) found False by (auto intro!: list_all_update_first)
      then have ok: "list_all (\<lambda>p. 0 \<le> stock p) (products ?w2)"
        by (simp add: add_item_def)
      from Cons.prems(2) e Some False
      have "checkout_loop oid ?w2 (tot + price_per_unit p * qty) c = (r, w')"
        by (simp add: Let_def)
      with ok show ?thesis by (rule Cons.IH)
    qed
  qed
qed








section \<open>Lemmas about checkout\<close>

lemma products_add_order [simp]: "products (add_order now w) = products w"
  by (simp add: add_order_def)

lemma order_items_add_order [simp]: "order_items (add_order now w) = order_items w"
  by (simp add: add_order_def)

lemma products_set_order_total [simp]: "products (set_order_total oid tot w) = products w"
  by (simp add: set_order_total_def)

lemma order_items_set_order_total [simp]: "order_items (set_order_total oid tot w) = order_items w"
  by (simp add: set_order_total_def)

lemma get_product_add_order [simp]: "get_product (add_order now w) pid = get_product w pid"
  by (simp add: get_product_def)

lemma stock_ok_cong: "products w' = products w \<Longrightarrow> stock_ok w' = stock_ok w"
  by (simp add: stock_ok_def)


text \<open>The three ways a checkout on a non-empty cart can end.\<close>

lemma checkout_outcomes:
  assumes "cart a \<noteq> []"
    and "checkout_loop (next_id (map o_id (orders (working a)))) (add_order now (working a)) 0 (cart a) = (r, w2)"
  shows "(\<exists>e. r = Inl e \<and> checkout now a =
            (Inl e, a\<lparr>committed := add_order now (working a), working := w2\<rparr>)) \<or>
         (\<exists>tot. r = Inr tot \<and>
            (let w3 = set_order_total (next_id (map o_id (orders (working a)))) tot w2
             in (\<exists>e. checkout now a = (Inl e, a\<lparr>committed := w3, working := w3\<rparr>)) \<or>
                (\<exists>txt. checkout now a = (Inr txt, a\<lparr>committed := w3, working := w3, cart := []\<rparr>))))"
proof (cases r)
  case (Inl e)
  with assms show ?thesis by (simp add: checkout_def Let_def commit_def)
next
  case (Inr tot)
  let ?oid = "next_id (map o_id (orders (working a)))"
  let ?w3 = "set_order_total ?oid tot w2"
  show ?thesis
  proof (cases "save_receipt ?w3 \<lparr>o_id = ?oid, timestamp = now, o_total = tot\<rparr>")
    case (Inl e)
    with assms Inr show ?thesis by (simp add: checkout_def Let_def commit_def)
  next
    case ok: (Inr receipt)
    with assms Inr show ?thesis by (simp add: checkout_def Let_def commit_def)
  qed
qed


lemma checkout_stock_ok:
  assumes "stock_ok (committed a)" and "stock_ok (working a)"
  shows "stock_ok (committed (snd (checkout now a))) \<and> stock_ok (working (snd (checkout now a)))"
proof (cases "cart a = []")
  case True
  with assms show ?thesis by (simp add: checkout_def)
next
  case False
  obtain r w2 where loop:
    "checkout_loop (next_id (map o_id (orders (working a)))) (add_order now (working a)) 0 (cart a) = (r, w2)"
    by (cases "checkout_loop (next_id (map o_id (orders (working a)))) (add_order now (working a)) 0 (cart a)")
  from assms(2) have "list_all (\<lambda>p. 0 \<le> stock p) (products (add_order now (working a)))"
    by (simp add: stock_ok_def)
  from checkout_loop_stock [OF this loop] have w2: "stock_ok w2"
    by (simp add: stock_ok_def)
  from assms(2) have w1: "stock_ok (add_order now (working a))"
    by (simp add: stock_ok_def)
  from checkout_outcomes [OF False loop] w1 w2 show ?thesis
    by (auto simp: Let_def stock_ok_def)
qed

section \<open>Evaluation of the examples\<close>

lemma replicate_numeral_unfold: "replicate (numeral k) x = x # replicate (pred_numeral k) x"
  by (simp add: numeral_eq_Suc)

lemmas eval_defs = replicate_numeral_unfold
  first_run_def seed_def empty_tables_def def_products_def commit_def next_id_def
  checkout_def add_order_def set_order_total_def get_product_def add_item_def Let_def
  items_def save_receipt_def item_line_def format_2f_def round_half_even_def zero_pad_def
  digits.simps rjust_def ljust_def format_timestamp_def times_sign_def
  add_product_def delete_product_def add_to_cart_def update_cart_display_def cart_get_def
  sale_time_def milk_sale_def short_sale_def deleted_sale_def run_def
  stock_ok_def keys_ok_def placed_order_def placed_items_def printed_of_def
  milk_sold_def milk_restocked_def milk_repriced_def


section \<open>Checkout on an empty cart\<close>

text \<open>
  Claim C6. A checkout on an empty cart always ends with the message "No items selected"
  (the specification's EmptyCartError) and leaves the whole application state as it
  was: neither the database nor the session nor the cart is changed, and the result
  does not depend on what the tables hold.
\<close>

theorem checkout_empty_cart:
  "cart a = [] \<Longrightarrow> checkout now a = (Inl NoItemsSelected, a)"
  by (simp add: checkout_def)

theorem checkout_empty_cart_witness:
  "cart first_run = [] \<and> checkout sale_time first_run = (Inl NoItemsSelected, first_run)"
proof -
  have h: "cart first_run = []" by (simp add: eval_defs)
  from h checkout_empty_cart [OF h] show ?thesis by simp
qed

section \<open>Checkout never makes a stock negative\<close>

text \<open>
  Claim C10. In the loop each product's stock is compared with the quantity before it
  is lowered (lemma \<open>checkout_loop_stock\<close>). So when no product has a negative stock as a
  checkout begins, none has one when it ends, in the database and in the session,
  whether the checkout completes or stops partway through the cart.
\<close>

theorem checkout_never_negative:
  assumes "stock_ok (committed a)" and "stock_ok (working a)"
  shows "stock_ok (committed (snd (checkout now a))) \<and> stock_ok (working (snd (checkout now a)))"
  using assms by (rule checkout_stock_ok)

theorem checkout_never_negative_witness:
  "stock_ok (committed short_sale) \<and> stock_ok (working short_sale) \<and>
   fst (checkout sale_time short_sale) = Inl (NotEnoughStock ''Yogurt (per kg)'') \<and>
   stock_ok (committed (snd (checkout sale_time short_sale))) \<and>
   stock_ok (working (snd (checkout sale_time short_sale)))"
proof -
  have c: "stock_ok (committed short_sale)" and w: "stock_ok (working short_sale)"
    by (simp_all add: eval_defs)
  have "fst (checkout sale_time short_sale) = Inl (NotEnoughStock ''Yogurt (per kg)'')"
    by (simp add: eval_defs)
  with c w checkout_never_negative [OF c w, of sale_time] show ?thesis by simp
qed

section \<open>The total of a completed order\<close>



section \<open>What a completed checkout changes in the product table\<close>



section \<open>Adding to the cart\<close>

text \<open>
  Claim C7. Adding a product to the cart twice, with the quantities \<open>q1\<close> and then \<open>q2\<close>,
  leaves exactly one cart entry for the product. Its quantity is what the cart held for
  the product before (0 when it held none) plus \<open>q1\<close> plus \<open>q2\<close>, so it is \<open>q1 + q2\<close> for a
  product that was not in the cart. The second addition does not add an entry. This
  holds for all quantities, the positive ones among them.
\<close>

theorem add_to_cart_accumulates:
  assumes "distinct (map fst (cart a))"
  shows "map_of (cart (snd (add_to_cart pid q2 (snd (add_to_cart pid q1 a))))) pid =
           Some (cart_get (cart a) pid + q1 + q2) \<and>
         (map_of (cart a) pid = None \<longrightarrow>
            map_of (cart (snd (add_to_cart pid q2 (snd (add_to_cart pid q1 a))))) pid = Some (q1 + q2)) \<and>
         length (filter (\<lambda>e. fst e = pid) (cart (snd (add_to_cart pid q2 (snd (add_to_cart pid q1 a)))))) = 1 \<and>
         length (cart (snd (add_to_cart pid q2 (snd (add_to_cart pid q1 a))))) =
           length (cart (snd (add_to_cart pid q1 a))) \<and>
         distinct (map fst (cart (snd (add_to_cart pid q2 (snd (add_to_cart pid q1 a))))))"
proof -
  let ?c1 = "AList.update pid (cart_get (cart a) pid + q1) (cart a)"
  let ?c2 = "AList.update pid (cart_get ?c1 pid + q2) ?c1"
  have c1: "cart (snd (add_to_cart pid q1 a)) = ?c1"
    by (simp add: add_to_cart_def Let_def)
  have c2: "cart (snd (add_to_cart pid q2 (snd (add_to_cart pid q1 a)))) = ?c2"
    by (simp add: add_to_cart_def Let_def)
  have get1: "cart_get ?c1 pid = cart_get (cart a) pid + q1"
    by (simp add: cart_get_def update_conv')
  have d1: "distinct (map fst ?c1)"
    using assms by (rule distinct_update)
  then have d2: "distinct (map fst ?c2)"
    by (rule distinct_update)
  have val: "map_of ?c2 pid = Some (cart_get (cart a) pid + q1 + q2)"
    by (simp add: update_conv' get1)
  have mem: "pid \<in> fst ` set ?c1"
    by (simp add: dom_update)
  have "k \<in> fst ` set al \<Longrightarrow> length (AList.update k v al) = length al"
    for k :: nat and v :: real and al
    by (induction al) auto
  with mem have len: "length ?c2 = length ?c1"
    by blast
  have "distinct (map fst xs) \<Longrightarrow> k \<in> fst ` set xs \<Longrightarrow> length (filter (\<lambda>e. fst e = k) xs) = 1"
    for k :: nat and xs :: "(nat \<times> real) list"
  proof (induction xs)
    case Nil
    then show ?case by simp
  next
    case (Cons x xs)
    show ?case
    proof (cases "fst x = k")
      case True
      from Cons.prems(1) have "fst x \<notin> fst ` set xs" by simp
      with True have "\<forall>e\<in>set xs. fst e \<noteq> k" by (metis imageI)
      then have "filter (\<lambda>e. fst e = k) xs = []" by (simp add: filter_empty_conv)
      with True show ?thesis by simp
    next
      case False
      with Cons show ?thesis by auto
    qed
  qed
  moreover have "pid \<in> fst ` set ?c2" by (simp add: dom_update)
  ultimately have one: "length (filter (\<lambda>e. fst e = pid) ?c2) = 1"
    using d2 by blast
  have fresh: "map_of (cart a) pid = None \<longrightarrow> map_of ?c2 pid = Some (q1 + q2)"
  proof
    assume "map_of (cart a) pid = None"
    then have "cart_get (cart a) pid = 0" by (simp add: cart_get_def)
    with val show "map_of ?c2 pid = Some (q1 + q2)" by (simp only: add_0)
  qed
  show ?thesis
    unfolding c2 c1 using val fresh one len d2 by blast
qed

theorem add_to_cart_accumulates_witness:
  "distinct (map fst (cart first_run)) \<and>
   cart milk_sale = [(1, 1)] \<and>
   map_of (cart milk_sale) 1 = Some (cart_get (cart first_run) 1 + 1 / 2 + 1 / 2) \<and>
   length (filter (\<lambda>e. fst e = 1) (cart milk_sale)) = 1"
proof -
  have d: "distinct (map fst (cart first_run))"
    by (simp add: eval_defs)
  have "cart milk_sale = [(1, 1)]"
    by (simp add: eval_defs)
  with d add_to_cart_accumulates [OF d, of 1 "1 / 2" "1 / 2"] show ?thesis
    by (simp add: milk_sale_def)
qed

section \<open>Catalog maintenance and the stock\<close>

lemma add_product_stock_ok:
  assumes "stock_ok (committed a)" and "stock_ok (working a)"
    and "enters_stock_ok (AddProduct nm price_in stock_in)"
  shows "stock_ok (committed (snd (add_product nm price_in stock_in a))) \<and>
         stock_ok (working (snd (add_product nm price_in stock_in a)))"
proof (cases "\<exists>n price stk. nm = Some n \<and> n \<noteq> [] \<and> price_in = Some price \<and> stock_in = Some stk")
  case True
  then obtain n price stk where
    in_ok: "nm = Some n" "n \<noteq> []" "price_in = Some price" "stock_in = Some stk"
    by blast
  with assms(3) have stk: "0 \<le> stk" by simp
  from assms(2) have rows: "list_all (\<lambda>p. 0 \<le> stock p) (products (working a))"
    by (simp add: stock_ok_def)
  have "list_all (\<lambda>p. 0 \<le> stock p)
          (update_first (\<lambda>p. name p = n) (\<lambda>p. p\<lparr>price_per_unit := price, stock := stk\<rparr>)
             (products (working a)))"
    using rows stk by (auto intro!: list_all_update_first)
  with rows stk in_ok show ?thesis
    by (simp add: add_product_def commit_def stock_ok_def Let_def split: option.split)
next
  case False
  then have "snd (add_product nm price_in stock_in a) = a"
    by (auto simp: add_product_def split: option.split)
  with assms show ?thesis by simp
qed

lemma delete_product_stock_ok:
  assumes "stock_ok (committed a)" and "stock_ok (working a)"
  shows "stock_ok (committed (snd (delete_product selected confirm a))) \<and>
         stock_ok (working (snd (delete_product selected confirm a)))"
proof -
  from assms(2) have "list_all (\<lambda>p. 0 \<le> stock p) (filter (\<lambda>p. p_id p \<noteq> pid) (products (working a)))"
    for pid
    by (simp add: stock_ok_def list_all_iff)
  with assms show ?thesis
    by (simp add: delete_product_def commit_def stock_ok_def Let_def split: option.split)
qed

lemma add_to_cart_tables:
  "committed (snd (add_to_cart pid qty a)) = committed a \<and>
   working (snd (add_to_cart pid qty a)) = working a"
  by (simp add: add_to_cart_def Let_def)

lemma step_stock_ok:
  assumes "stock_ok (committed a)" and "stock_ok (working a)" and "enters_stock_ok act"
  shows "stock_ok (committed (step act a)) \<and> stock_ok (working (step act a))"
proof (cases act)
  case (AddProduct nm price_in stock_in)
  with assms add_product_stock_ok [of a nm price_in stock_in] show ?thesis by simp
next
  case (DeleteProduct selected confirm)
  with assms delete_product_stock_ok [of a selected confirm] show ?thesis by simp
next
  case (AddToCart pid qty)
  with assms show ?thesis by (simp add: add_to_cart_tables)
next
  case (Checkout now)
  with assms checkout_stock_ok [of a now] show ?thesis by simp
qed

lemma first_run_stock_ok: "stock_ok (committed first_run) \<and> stock_ok (working first_run)"
  by (simp add: eval_defs)

text \<open>
  Claim C3, as amended. From a state in which no product has a negative stock, such as
  the first run, every sequence of product additions and updates that enter a
  non-negative stock, product deletions, cart additions and checkouts leads to a state
  in which no product has a negative stock, in the database and in the session.
\<close>

theorem stock_never_negative:
  assumes "stock_ok (committed a)" and "stock_ok (working a)" and "list_all enters_stock_ok acts"
  shows "stock_ok (committed (run acts a)) \<and> stock_ok (working (run acts a))"
  using assms
proof (induction acts arbitrary: a)
  case Nil
  then show ?case by (simp add: run_def)
next
  case (Cons act acts)
  from Cons.prems have "stock_ok (committed (step act a)) \<and> stock_ok (working (step act a))"
    by (simp add: step_stock_ok)
  moreover from Cons.prems have "list_all enters_stock_ok acts" by simp
  ultimately have "stock_ok (committed (run acts (step act a))) \<and> stock_ok (working (run acts (step act a)))"
    using Cons.IH by blast
  then show ?case by (simp add: run_def)
qed

theorem stock_never_negative_witness:
  "stock_ok (committed first_run) \<and> stock_ok (working first_run) \<and>
   list_all enters_stock_ok
     [AddProduct (Some ''Lassi'') (Some 80) (Some 10), AddToCart 8 3, AddToCart 1 (1 / 2),
      Checkout sale_time, DeleteProduct (Some 3) True, AddToCart 8 8, Checkout sale_time] \<and>
   stock_ok (committed (run
     [AddProduct (Some ''Lassi'') (Some 80) (Some 10), AddToCart 8 3, AddToCart 1 (1 / 2),
      Checkout sale_time, DeleteProduct (Some 3) True, AddToCart 8 8, Checkout sale_time] first_run)) \<and>
   map stock (products (working (run
     [AddProduct (Some ''Lassi'') (Some 80) (Some 10), AddToCart 8 3, AddToCart 1 (1 / 2),
      Checkout sale_time, DeleteProduct (Some 3) True, AddToCart 8 8, Checkout sale_time] first_run))) =
     [199 / 2, 100, 100, 100, 100, 100, 7]"
proof -
  have c: "stock_ok (committed first_run)" and w: "stock_ok (working first_run)"
    using first_run_stock_ok by simp_all
  have acts: "list_all enters_stock_ok
     [AddProduct (Some ''Lassi'') (Some 80) (Some 10), AddToCart 8 3, AddToCart 1 (1 / 2),
      Checkout sale_time, DeleteProduct (Some 3) True, AddToCart 8 8, Checkout sale_time]"
    by simp
  have "map stock (products (working (run
     [AddProduct (Some ''Lassi'') (Some 80) (Some 10), AddToCart 8 3, AddToCart 1 (1 / 2),
      Checkout sale_time, DeleteProduct (Some 3) True, AddToCart 8 8, Checkout sale_time] first_run))) =
     [199 / 2, 100, 100, 100, 100, 100, 7]"
    by (simp add: eval_defs)
  with stock_never_negative [OF c w acts] c w acts show ?thesis by blast
qed

text \<open>
  The counterexample to C3 as it is written: on the first run, updating the milk with a
  stock of -5 is accepted and committed, and the database then holds a negative stock.
\<close>

theorem stock_never_negative_counterexample:
  "fst (add_product (Some ''Milk (per kg)'') (Some 150) (Some (- 5)) first_run) = None \<and>
   map stock (products (committed (snd
     (add_product (Some ''Milk (per kg)'') (Some 150) (Some (- 5)) first_run)))) =
     [- 5, 100, 100, 100, 100, 100, 100] \<and>
   \<not> stock_ok (committed (run [AddProduct (Some ''Milk (per kg)'') (Some 150) (Some (- 5))] first_run))"
  by (simp add: eval_defs)

section \<open>Input checking of the product dialog\<close>






section \<open>Unique keys\<close>

lemma checkout_loop_keys:
  "checkout_loop oid w tot c = (r, w') \<Longrightarrow> map p_id (products w') = map p_id (products w)"
proof (induction c arbitrary: w tot)
  case Nil
  then show ?case by simp
next
  case (Cons e c)
  obtain pid qty where e: "e = (pid, qty)" by (cases e)
  show ?case
  proof (cases "get_product w pid")
    case None
    with Cons.prems e show ?thesis by simp
  next
    case (Some p)
    show ?thesis
    proof (cases "stock p < qty")
      case True
      with Cons.prems e Some show ?thesis by simp
    next
      case False
      let ?w2 = "add_item oid pid qty (price_per_unit p * qty)
        (w\<lparr>products := update_first (\<lambda>r. p_id r = pid) (\<lambda>r. r\<lparr>stock := stock r - qty\<rparr>) (products w)\<rparr>)"
      from Cons.prems e Some False
      have "checkout_loop oid ?w2 (tot + price_per_unit p * qty) c = (r, w')"
        by (simp add: Let_def)
      then have "map p_id (products w') = map p_id (products ?w2)"
        by (rule Cons.IH)
      also have "\<dots> = map p_id (products w)"
        by (simp add: add_item_def map_update_first)
      finally show ?thesis .
    qed
  qed
qed

lemma checkout_keys_ok: "keys_ok a \<Longrightarrow> keys_ok (snd (checkout now a))"
proof (cases "cart a = []")
  case True
  then show "keys_ok a \<Longrightarrow> keys_ok (snd (checkout now a))" by (simp add: checkout_def)
next
  case False
  assume k: "keys_ok a"
  obtain r w2 where loop:
    "checkout_loop (next_id (map o_id (orders (working a)))) (add_order now (working a)) 0 (cart a) = (r, w2)"
    by (cases "checkout_loop (next_id (map o_id (orders (working a)))) (add_order now (working a)) 0 (cart a)")
  from checkout_loop_keys [OF loop] have "map p_id (products w2) = map p_id (products (working a))"
    by simp
  with checkout_outcomes [OF False loop] k show "keys_ok (snd (checkout now a))"
    by (auto simp: Let_def keys_ok_def)
qed

lemma add_product_keys_ok: "keys_ok a \<Longrightarrow> keys_ok (snd (add_product nm price_in stock_in a))"
proof -
  assume k: "keys_ok a"
  have fresh: "next_id (map p_id (products (working a))) \<notin> p_id ` set (products (working a))"
    using next_id_fresh [of _ "map p_id (products (working a))"] by fastforce
  have same: "map p_id (update_first (\<lambda>p. name p = n) (\<lambda>p. p\<lparr>price_per_unit := price, stock := stk\<rparr>)
                 (products (working a))) = map p_id (products (working a))" for n price stk
    by (simp add: map_update_first)
  from k fresh same show ?thesis
    by (simp add: add_product_def commit_def keys_ok_def Let_def split: option.split)
qed

lemma delete_product_keys_ok: "keys_ok a \<Longrightarrow> keys_ok (snd (delete_product selected confirm a))"
  by (simp add: delete_product_def commit_def keys_ok_def Let_def distinct_map_filter split: option.split)

lemma add_to_cart_keys_ok: "keys_ok a \<Longrightarrow> keys_ok (snd (add_to_cart pid qty a))"
  by (simp add: add_to_cart_def keys_ok_def Let_def distinct_update)

text \<open>
  The keys stay unique whatever the operator does, so the states that satisfy \<open>keys_ok\<close>
  include every state the application reaches from its first run.
\<close>

lemma run_keys_ok: "keys_ok a \<Longrightarrow> keys_ok (run acts a)"
proof (induction acts arbitrary: a)
  case Nil
  then show ?case by (simp add: run_def)
next
  case (Cons act acts)
  have "keys_ok (step act a)"
    using Cons.prems
    by (cases act)
       (simp_all add: add_product_keys_ok delete_product_keys_ok add_to_cart_keys_ok checkout_keys_ok)
  then have "keys_ok (run acts (step act a))" by (rule Cons.IH)
  then show ?case by (simp add: run_def)
qed

lemma first_run_keys_ok: "keys_ok first_run"
  by (simp add: eval_defs)

section \<open>What a receipt depends on\<close>

lemma item_line_printed:
  "item_line w item =
     (case printed_of w (product_id item) of
        None \<Rightarrow> Inl AttributeError
      | Some (nm, price) \<Rightarrow>
          Inr (ljust 15 nm @ '' '' @ rjust 5 (format_2f (quantity item)) @ '' '' @
               times_sign @ '' '' @ rjust 6 (format_2f price) @ '' = '' @
               rjust 7 (format_2f (line_total item))))"
  by (simp add: item_line_def printed_of_def split: option.split)

lemma item_lines_printed:
  "list_all (\<lambda>i. printed_of w1 (product_id i) = printed_of w2 (product_id i)) its \<Longrightarrow>
   item_lines w1 its = item_lines w2 its"
proof (induction its)
  case Nil
  then show ?case by simp
next
  case (Cons item its)
  from Cons.prems have "item_line w1 item = item_line w2 item"
    by (simp add: item_line_printed)
  moreover from Cons have "item_lines w1 its = item_lines w2 its"
    by simp
  ultimately show ?case by (simp only: item_lines.simps)
qed

text \<open>
  Claim C8, as amended. The receipt text is a function of the order, its items and, for
  each item, the name and the current unit price of the item's product: an order
  rendered in two states that hold the same items, and in which each of the order's
  items finds a product with the same name and price (or finds none), gives the same
  result. The stock is not read.
\<close>

theorem receipt_depends_on_name_and_price:
  assumes "order_items w1 = order_items w2"
    and "list_all (\<lambda>i. printed_of w1 (product_id i) = printed_of w2 (product_id i)) (items w1 ord)"
  shows "save_receipt w1 ord = save_receipt w2 ord"
proof -
  from assms(1) have same: "items w2 ord = items w1 ord"
    by (simp add: items_def)
  from assms(2) have "item_lines w1 (items w1 ord) = item_lines w2 (items w1 ord)"
    by (rule item_lines_printed)
  with same show ?thesis
    by (simp add: save_receipt_def)
qed

theorem receipt_depends_on_name_and_price_witness:
  "order_items (working milk_sold) = order_items (working milk_restocked) \<and>
   list_all (\<lambda>i. printed_of (working milk_sold) (product_id i) =
                 printed_of (working milk_restocked) (product_id i))
     (items (working milk_sold) (placed_order milk_sold)) \<and>
   map stock (products (working milk_sold)) = [99, 100, 100, 100, 100, 100, 100] \<and>
   map stock (products (working milk_restocked)) = [40, 100, 100, 100, 100, 100, 100] \<and>
   save_receipt (working milk_sold) (placed_order milk_sold) =
   save_receipt (working milk_restocked) (placed_order milk_sold)"
proof -
  have i: "order_items (working milk_sold) = order_items (working milk_restocked)"
    by (simp add: eval_defs)
  have p: "list_all (\<lambda>i. printed_of (working milk_sold) (product_id i) =
                 printed_of (working milk_restocked) (product_id i))
     (items (working milk_sold) (placed_order milk_sold))"
    by (simp add: eval_defs)
  have "map stock (products (working milk_sold)) = [99, 100, 100, 100, 100, 100, 100]"
    by (simp add: eval_defs)
  moreover have "map stock (products (working milk_restocked)) = [40, 100, 100, 100, 100, 100, 100]"
    by (simp add: eval_defs)
  ultimately show ?thesis
    using receipt_depends_on_name_and_price [OF i p] i p by blast
qed

text \<open>
  The counterexample to C8 as it is written: the order of the milk sale, rendered after
  the price of the milk has been changed from 150 to 160, prints the new unit price
  beside the old line total. Orders and items are the same in both states.
\<close>

theorem receipt_depends_on_name_and_price_counterexample:
  "orders (working milk_repriced) = orders (working milk_sold) \<and>
   order_items (working milk_repriced) = order_items (working milk_sold) \<and>
   save_receipt (working milk_sold) (placed_order milk_sold) = Inr
    (''*** MILK SHOP RECEIPT ***'' @ [CHR 0x0A] @
     ''Order #1   2025-03-07 09:05:00'' @ [CHR 0x0A] @
     ''----------------------------------------'' @ [CHR 0x0A] @
     ''Milk (per kg)    1.00 '' @ [CHR 0xC3, CHR 0x97] @ '' 150.00 =  150.00'' @ [CHR 0x0A] @
     ''----------------------------------------'' @ [CHR 0x0A] @
     ''TOTAL: 150.00'' @ [CHR 0x0A] @
     ''Thank you!'') \<and>
   save_receipt (working milk_repriced) (placed_order milk_sold) = Inr
    (''*** MILK SHOP RECEIPT ***'' @ [CHR 0x0A] @
     ''Order #1   2025-03-07 09:05:00'' @ [CHR 0x0A] @
     ''----------------------------------------'' @ [CHR 0x0A] @
     ''Milk (per kg)    1.00 '' @ [CHR 0xC3, CHR 0x97] @ '' 160.00 =  150.00'' @ [CHR 0x0A] @
     ''----------------------------------------'' @ [CHR 0x0A] @
     ''TOTAL: 150.00'' @ [CHR 0x0A] @
     ''Thank you!'') \<and>
   save_receipt (working milk_sold) (placed_order milk_sold) \<noteq>
   save_receipt (working milk_repriced) (placed_order milk_sold)"
  by (simp add: eval_defs)

section \<open>A checkout that stops partway\<close>

text \<open>
  Claim C1. The claim fails on the code. On the first run, with one kilogram of milk
  and 200 kilograms of yogurt in the cart, the checkout ends with "Not enough stock for
  Yogurt (per kg)". By then the new order has been committed with total 0, and the
  session holds the milk's stock lowered to 99 and the milk's order item. The function
  returns without a rollback, so the next commit of the session, here the addition of a
  product, writes both to the database.
\<close>

theorem checkout_short_stock_not_atomic:
  "fst (checkout sale_time short_sale) = Inl (NotEnoughStock ''Yogurt (per kg)'') \<and>
   cart (snd (checkout sale_time short_sale)) = [(1, 1), (2, 200)] \<and>
   orders (committed short_sale) = [] \<and>
   orders (committed (snd (checkout sale_time short_sale))) =
     [\<lparr>o_id = 1, timestamp = sale_time, o_total = 0\<rparr>] \<and>
   map stock (products (working short_sale)) = [100, 100, 100, 100, 100, 100, 100] \<and>
   map stock (products (working (snd (checkout sale_time short_sale)))) =
     [99, 100, 100, 100, 100, 100, 100] \<and>
   order_items (working (snd (checkout sale_time short_sale))) =
     [\<lparr>i_id = 1, order_id = 1, product_id = 1, quantity = 1, line_total = 150\<rparr>] \<and>
   map stock (products (committed (snd (add_product (Some ''Lassi'') (Some 80) (Some 10)
     (snd (checkout sale_time short_sale)))))) = [99, 100, 100, 100, 100, 100, 100, 10] \<and>
   order_items (committed (snd (add_product (Some ''Lassi'') (Some 80) (Some 10)
     (snd (checkout sale_time short_sale))))) =
     [\<lparr>i_id = 1, order_id = 1, product_id = 1, quantity = 1, line_total = 150\<rparr>]"
  by (simp add: eval_defs)

text \<open>
  Claim C5. The claim fails on the code. On the first run, with milk and yogurt in the
  cart and the yogurt then deleted from the catalog, the checkout has no branch for the
  missing product: reading the stock of the missing row raises \<^verbatim>\<open>AttributeError\<close>, and no
  message names a product. By then the new order has been committed with total 0 and
  the session holds the milk's stock lowered to 99 and the milk's order item. Only the
  cart is left as it was.
\<close>

theorem checkout_deleted_product_raises:
  "cart deleted_sale = [(1, 1), (2, 1)] \<and>
   get_product (working deleted_sale) 2 = None \<and>
   fst (checkout sale_time deleted_sale) = Inl AttributeError \<and>
   cart (snd (checkout sale_time deleted_sale)) = cart deleted_sale \<and>
   orders (committed deleted_sale) = [] \<and>
   orders (committed (snd (checkout sale_time deleted_sale))) =
     [\<lparr>o_id = 1, timestamp = sale_time, o_total = 0\<rparr>] \<and>
   map stock (products (working deleted_sale)) = [100, 100, 100, 100, 100, 100] \<and>
   map stock (products (working (snd (checkout sale_time deleted_sale)))) =
     [99, 100, 100, 100, 100, 100] \<and>
   order_items (working (snd (checkout sale_time deleted_sale))) =
     [\<lparr>i_id = 1, order_id = 1, product_id = 1, quantity = 1, line_total = 150\<rparr>]"
  by (simp add: eval_defs)

end
